theory Spec2Isabelle
  imports Complex_Main "HOL-Library.Multiset"
begin

section \<open>Numbers\<close>

text \<open>
  A TypeScript \<open>number\<close> that is a rating, a count or a K-factor is modelled by a real:
  the finite values, with exact arithmetic; the rounding of IEEE doubles is outside the
  model. The arguments of \<open>calculateRequiredRating\<close>, which checks the range of its
  target score, are \<open>number\<close>s that can also be \<open>NaN\<close> or infinite.
  \<open>Math.round\<close> rounds to the nearest integer, a tie towards plus infinity;
  \<open>Math.pow\<close> and \<open>Math.log10\<close> are the real power and the logarithm to base 10
  (the source calls \<open>Math.log10\<close> on positive arguments only).
\<close>

definition Math_round :: "real \<Rightarrow> int" where
  "Math_round x = \<lfloor>x + 1 / 2\<rfloor>"

definition Math_pow :: "real \<Rightarrow> real \<Rightarrow> real" where
  "Math_pow b x = b powr x"

definition Math_log10 :: "real \<Rightarrow> real" where
  "Math_log10 x = log 10 x"

text \<open>
  An optional numeric field \<open>f?: number\<close> is a \<open>real option\<close>. JavaScript's truthiness
  of such a field (\<open>if (options?.f)\<close>) and the idiom \<open>options?.f || d\<close> treat an absent
  field and the number 0 alike.
\<close>

fun truthy :: "real option \<Rightarrow> bool" where
  "truthy None = False"
| "truthy (Some x) = (x \<noteq> 0)"

fun or_else :: "real option \<Rightarrow> real \<Rightarrow> real" where
  "or_else None d = d"
| "or_else (Some x) d = (if x = 0 then d else x)"

datatype error = Error string

text \<open>
  A number with the values that are not finite. A comparison with \<open>NaN\<close> is false;
  arithmetic on \<open>NaN\<close> and \<open>Math.round\<close> of it give \<open>NaN\<close>.
\<close>

datatype number = NaN | NegInfinity | Infinity | Finite real

fun number_le :: "number \<Rightarrow> real \<Rightarrow> bool" where
  "number_le NaN c = False"
| "number_le NegInfinity c = True"
| "number_le Infinity c = False"
| "number_le (Finite x) c = (x \<le> c)"

fun number_ge :: "number \<Rightarrow> real \<Rightarrow> bool" where
  "number_ge NaN c = False"
| "number_ge NegInfinity c = False"
| "number_ge Infinity c = True"
| "number_ge (Finite x) c = (x \<ge> c)"

text \<open>The sum of a number and a finite value, and \<open>Math.round\<close> of a number.\<close>

fun number_round :: "number \<Rightarrow> number" where
  "number_round NaN = NaN"
| "number_round NegInfinity = NegInfinity"
| "number_round Infinity = Infinity"
| "number_round (Finite x) = Finite (real_of_int (Math_round x))"

fun number_add :: "number \<Rightarrow> real \<Rightarrow> number" where
  "number_add NaN d = NaN"
| "number_add NegInfinity d = NegInfinity"
| "number_add Infinity d = Infinity"
| "number_add (Finite x) d = Finite (x + d)"

section \<open>The rating engine: class EloCalculator\<close>

record EloResult =
  newRatingPlayer1 :: real
  newRatingPlayer2 :: real
  changePlayer1 :: real
  changePlayer2 :: real

record EloCalculationOptions =
  kFactor :: "real option"
  provisionalThreshold :: "real option"
  ratingFloor :: "real option"
  ratingCeiling :: "real option"

text \<open>Optional chaining \<open>options?.f\<close> on the optional argument \<open>options\<close>.\<close>

fun chain :: "(EloCalculationOptions \<Rightarrow> real option) \<Rightarrow> EloCalculationOptions option \<Rightarrow> real option" where
  "chain f None = None"
| "chain f (Some opts) = f opts"

definition DEFAULT_K_FACTOR :: real where "DEFAULT_K_FACTOR = 32"
definition HIGH_RATING_THRESHOLD :: real where "HIGH_RATING_THRESHOLD = 2400"
definition LOW_RATING_K_FACTOR :: real where "LOW_RATING_K_FACTOR = 40"
definition MEDIUM_RATING_K_FACTOR :: real where "MEDIUM_RATING_K_FACTOR = 32"
definition HIGH_RATING_K_FACTOR :: real where "HIGH_RATING_K_FACTOR = 16"
definition PROVISIONAL_GAMES_THRESHOLD :: real where "PROVISIONAL_GAMES_THRESHOLD = 30"
definition RATING_FLOOR :: real where "RATING_FLOOR = 100"
definition RATING_CEILING :: real where "RATING_CEILING = 3000"

definition calculateExpectedScore :: "real \<Rightarrow> real \<Rightarrow> real" where
  "calculateExpectedScore playerRating opponentRating =
     (let ratingDifference = opponentRating - playerRating
      in 1 / (1 + Math_pow 10 (ratingDifference / 400)))"

definition calculateKFactor :: "real \<Rightarrow> real \<Rightarrow> EloCalculationOptions option \<Rightarrow> real" where
  "calculateKFactor playerRating gamesPlayed options =
     (if truthy (chain kFactor options) then the (chain kFactor options)
      else if gamesPlayed < or_else (chain provisionalThreshold options) PROVISIONAL_GAMES_THRESHOLD
        then LOW_RATING_K_FACTOR
      else if playerRating \<ge> HIGH_RATING_THRESHOLD then HIGH_RATING_K_FACTOR
      else if playerRating \<ge> 2100 then MEDIUM_RATING_K_FACTOR
      else LOW_RATING_K_FACTOR)"

text \<open>
  The parameter \<open>result\<close> of \<open>calculateNewRatings\<close> has the type
  \<open>'player1_wins' | 'player2_wins' | 'draw'\<close>; the \<open>default\<close> branch of its
  \<open>switch\<close>, which throws, is unreachable for a value of that type.
\<close>

datatype match_result = player1_wins | player2_wins | match_draw

fun actualScore1 :: "match_result \<Rightarrow> real" where
  "actualScore1 player1_wins = 1"
| "actualScore1 player2_wins = 0"
| "actualScore1 match_draw = 1 / 2"

fun actualScore2 :: "match_result \<Rightarrow> real" where
  "actualScore2 player1_wins = 0"
| "actualScore2 player2_wins = 1"
| "actualScore2 match_draw = 1 / 2"

definition calculateNewRatings ::
  "real \<Rightarrow> real \<Rightarrow> real \<Rightarrow> real \<Rightarrow> match_result \<Rightarrow> EloCalculationOptions option \<Rightarrow> EloResult" where
  "calculateNewRatings player1Rating player2Rating player1GamesPlayed player2GamesPlayed result options =
     (let expectedScore1 = calculateExpectedScore player1Rating player2Rating;
          expectedScore2 = calculateExpectedScore player2Rating player1Rating;
          kFactor1 = calculateKFactor player1Rating player1GamesPlayed options;
          kFactor2 = calculateKFactor player2Rating player2GamesPlayed options;
          change1 = real_of_int (Math_round (kFactor1 * (actualScore1 result - expectedScore1)));
          change2 = real_of_int (Math_round (kFactor2 * (actualScore2 result - expectedScore2)));
          floor = or_else (chain ratingFloor options) RATING_FLOOR;
          ceiling = or_else (chain ratingCeiling options) RATING_CEILING;
          newRating1 = max floor (min ceiling (player1Rating + change1));
          newRating2 = max floor (min ceiling (player2Rating + change2))
      in \<lparr> newRatingPlayer1 = newRating1,
           newRatingPlayer2 = newRating2,
           changePlayer1 = newRating1 - player1Rating,
           changePlayer2 = newRating2 - player2Rating \<rparr>)"

text \<open>
  The results of \<open>calculateEloChange\<close> and \<open>calculatePerformanceRating\<close> have the
  type \<open>'win' | 'loss' | 'draw'\<close>.
\<close>

datatype game_result = win | loss | draw

fun actualScore :: "game_result \<Rightarrow> real" where
  "actualScore win = 1"
| "actualScore loss = 0"
| "actualScore draw = 1 / 2"

text \<open>The static method \<open>EloCalculator.calculateEloChange\<close>; \<open>gamesPlayed\<close> defaults to 50.\<close>

definition EloCalculator_calculateEloChange :: "real \<Rightarrow> real \<Rightarrow> game_result \<Rightarrow> real option \<Rightarrow> int" where
  "EloCalculator_calculateEloChange playerRating opponentRating result gamesPlayed =
     (let expectedScore = calculateExpectedScore playerRating opponentRating;
          kFactor = calculateKFactor playerRating (case gamesPlayed of None \<Rightarrow> 50 | Some g \<Rightarrow> g) None
      in Math_round (kFactor * (actualScore result - expectedScore)))"

text \<open>
  An element \<open>{opponentRating, result}\<close> of the argument of \<open>calculatePerformanceRating\<close>.
  The function is modelled in exact arithmetic. The program computes in doubles, with the
  platform's \<open>Math.log10\<close>, and its result can differ by 1 where the exact value is at a
  rounding tie: for 20 wins and 2 losses against opponents rated 100 (21 times) and 111
  the exact value is 500.5, rounded to 501, and the program returns 500.
\<close>

record PerformanceGame =
  g_opponentRating :: real
  g_result :: game_result

definition calculatePerformanceRating :: "PerformanceGame list \<Rightarrow> int" where
  "calculatePerformanceRating results =
     (if length results = 0 then 0
      else
        let totalScore = foldl (\<lambda>sum game.
              case g_result game of win \<Rightarrow> sum + 1 | draw \<Rightarrow> sum + 1 / 2 | loss \<Rightarrow> sum + 0)
              (0::real) results;
            averageOpponentRating =
              foldl (\<lambda>sum game. sum + g_opponentRating game) 0 results / real (length results);
            scorePercentage = totalScore / real (length results);
            ratingDifference =
              (if scorePercentage = 1 then 400
               else if scorePercentage = 0 then - 400
               else 400 * Math_log10 (scorePercentage / (1 - scorePercentage)))
        in Math_round (averageOpponentRating + ratingDifference))"

text \<open>
  \<open>calculateRequiredRating\<close>: the guard is the two comparisons of the source, which
  \<open>NaN\<close> passes; the arithmetic on \<open>NaN\<close> then returns \<open>NaN\<close>. An infinite target
  score is stopped by the guard. The opponent rating is not checked.
\<close>

definition calculateRequiredRating :: "number \<Rightarrow> number \<Rightarrow> error + number" where
  "calculateRequiredRating opponentRating targetScore =
     (if number_le targetScore 0 \<or> number_ge targetScore 1
      then Inl (Error ''Target score must be between 0 and 1'')
      else
        (case targetScore of
           Finite t \<Rightarrow>
             let ratingDifference = 400 * Math_log10 (t / (1 - t))
             in Inr (number_round (number_add opponentRating ratingDifference))
         | _ \<Rightarrow> Inr NaN))"

text \<open>
  The exported function \<open>calculateEloChange\<close> takes the result as a string and throws
  on a string it does not know.
\<close>

definition calculateEloChange :: "real \<Rightarrow> real \<Rightarrow> string \<Rightarrow> error + int" where
  "calculateEloChange playerRating opponentRating result =
     (if result = ''white_wins'' \<or> result = ''player1_wins'' \<or> result = ''win''
        then Inr (EloCalculator_calculateEloChange playerRating opponentRating win None)
      else if result = ''black_wins'' \<or> result = ''player2_wins'' \<or> result = ''loss''
        then Inr (EloCalculator_calculateEloChange playerRating opponentRating loss None)
      else if result = ''draw''
        then Inr (EloCalculator_calculateEloChange playerRating opponentRating draw None)
      else Inl (Error (''Invalid game result: '' @ result)))"

section \<open>The persistence collaborator\<close>

text \<open>
  The tables of \<open>shared/schema.ts\<close> are lists of rows, with the columns the tournament
  service reads or writes (timestamps, board state and move history are left out). A
  \<open>select ... where id = ...\<close> returns the first row with that id; an
  \<open>update ... where id = ...\<close> rewrites the rows with that id. The statuses are the
  strings of the enums. The \<open>integer\<close> columns are nullable and hold 32-bit values: a
  column is an \<open>int option\<close> (\<open>None\<close> is \<open>NULL\<close>), and a statement that writes a value
  outside the 32-bit range is rejected by the database and writes nothing.
\<close>

record User =
  user_id :: string
  eloRating :: "int option"
  gamesPlayed :: "int option"
  gamesWon :: "int option"
  gamesLost :: "int option"
  gamesDrawn :: "int option"

record Game =
  game_id :: string
  whitePlayerId :: "string option"
  blackPlayerId :: "string option"
  game_status :: string
  isRated :: bool
  tournamentId :: "string option"
  whiteEloChange :: "int option"
  blackEloChange :: "int option"

record TournamentSettings =
  maxParticipants :: int
  timeControl :: string
  autoStart :: bool
  autoAdvance :: bool
  eliminationFormat :: string

record Tournament =
  tournament_id :: string
  tournament_status :: string
  winnerId :: "string option"
  rules :: "TournamentSettings option"

record Storage =
  users :: "User list"
  games :: "Game list"
  tournaments :: "Tournament list"

definition int4 :: "int \<Rightarrow> bool" where
  "int4 n = (- 2147483648 \<le> n \<and> n \<le> 2147483647)"

fun int4_column :: "int option \<Rightarrow> bool" where
  "int4_column None = True"
| "int4_column (Some n) = int4 n"

text \<open>A \<open>null\<close> read from a column counts as 0 in JavaScript's arithmetic and comparisons.\<close>

fun coerce :: "int option \<Rightarrow> int" where
  "coerce None = 0"
| "coerce (Some n) = n"

definition getUser :: "Storage \<Rightarrow> string \<Rightarrow> User option" where
  "getUser st ident = find (\<lambda>u. user_id u = ident) (users st)"

text \<open>
  The patch that \<open>handleGameCompletion\<close> passes to \<open>updateUser\<close>: a value for each of
  the five statistics.
\<close>

record UserUpdates =
  upd_eloRating :: "int option"
  upd_gamesPlayed :: "int option"
  upd_gamesWon :: "int option"
  upd_gamesLost :: "int option"
  upd_gamesDrawn :: "int option"

definition writable :: "UserUpdates \<Rightarrow> bool" where
  "writable updates =
     (int4_column (upd_eloRating updates) \<and> int4_column (upd_gamesPlayed updates)
      \<and> int4_column (upd_gamesWon updates) \<and> int4_column (upd_gamesLost updates)
      \<and> int4_column (upd_gamesDrawn updates))"

definition applyUpdates :: "UserUpdates \<Rightarrow> User \<Rightarrow> User" where
  "applyUpdates updates u =
     u\<lparr>eloRating := upd_eloRating updates,
       gamesPlayed := upd_gamesPlayed updates,
       gamesWon := upd_gamesWon updates,
       gamesLost := upd_gamesLost updates,
       gamesDrawn := upd_gamesDrawn updates\<rparr>"

definition updateUser :: "string \<Rightarrow> UserUpdates \<Rightarrow> Storage \<Rightarrow> error + Storage" where
  "updateUser ident updates st =
     (if writable updates then
        Inr (st\<lparr>users := map (\<lambda>u. if user_id u = ident then applyUpdates updates u else u) (users st)\<rparr>)
      else Inl (Error ''value out of range for type integer''))"

definition getGame :: "Storage \<Rightarrow> string \<Rightarrow> Game option" where
  "getGame st ident = find (\<lambda>g. game_id g = ident) (games st)"

text \<open>
  \<open>createGame\<close> inserts a row; the database draws its id (\<open>gen_random_uuid()\<close>), which
  the model takes as an argument. The columns \<open>white_player_id\<close> and \<open>black_player_id\<close>
  reference \<open>users.id\<close>: the insert of a player id that is no user's is rejected.
\<close>

fun references_user :: "Storage \<Rightarrow> string option \<Rightarrow> bool" where
  "references_user st None = True"
| "references_user st (Some ident) = (getUser st ident \<noteq> None)"

definition createGame :: "string \<Rightarrow> Game \<Rightarrow> Storage \<Rightarrow> error + Game \<times> Storage" where
  "createGame newId insertGame st =
     (if references_user st (whitePlayerId insertGame) \<and> references_user st (blackPlayerId insertGame)
          \<and> int4_column (whiteEloChange insertGame) \<and> int4_column (blackEloChange insertGame)
      then
        (let game = insertGame\<lparr>game_id := newId\<rparr>
         in Inr (game, st\<lparr>games := games st @ [game]\<rparr>))
      else Inl (Error ''insert or update on table games violates a constraint''))"

text \<open>The patch that \<open>handleGameCompletion\<close> passes to \<open>updateGame\<close>.\<close>

record GameUpdates =
  upd_whiteEloChange :: "int option"
  upd_blackEloChange :: "int option"

definition updateGame :: "string \<Rightarrow> GameUpdates \<Rightarrow> Storage \<Rightarrow> error + Storage" where
  "updateGame ident updates st =
     (if int4_column (upd_whiteEloChange updates) \<and> int4_column (upd_blackEloChange updates) then
        Inr (st\<lparr>games := map (\<lambda>g. if game_id g = ident
                 then g\<lparr>whiteEloChange := upd_whiteEloChange updates,
                        blackEloChange := upd_blackEloChange updates\<rparr>
                 else g) (games st)\<rparr>)
      else Inl (Error ''value out of range for type integer''))"

definition getActiveGames :: "Storage \<Rightarrow> Game list" where
  "getActiveGames st = filter (\<lambda>g. game_status g = ''active'') (games st)"

definition getTournament :: "Storage \<Rightarrow> string \<Rightarrow> Tournament option" where
  "getTournament st ident = find (\<lambda>t. tournament_id t = ident) (tournaments st)"

definition updateTournament :: "string \<Rightarrow> (Tournament \<Rightarrow> Tournament) \<Rightarrow> Storage \<Rightarrow> Storage" where
  "updateTournament ident updates st =
     st\<lparr>tournaments := map (\<lambda>t. if tournament_id t = ident then updates t else t) (tournaments st)\<rparr>"

section \<open>The tournament service: class TournamentService\<close>

record TournamentMatch =
  match_id :: string
  player1Id :: string
  player2Id :: string
  gameId :: "string option"
  match_result :: "match_result option"
  isComplete :: bool

text \<open>A participant row; the generators read its \<open>userId\<close> only.\<close>

record Participant =
  userId :: string

text \<open>An integer in a template literal is printed in decimal.\<close>

fun show_nat :: "nat \<Rightarrow> string" where
  "show_nat n =
     (if n < 10 then [char_of (48 + n)]
      else show_nat (n div 10) @ [char_of (48 + n mod 10)])"

declare show_nat.simps [simp del]

definition newTournamentGame :: "string \<Rightarrow> string \<Rightarrow> string \<Rightarrow> Game" where
  "newTournamentGame white black tid =
     \<lparr> game_id = [], whitePlayerId = Some white, blackPlayerId = Some black,
       game_status = ''active'', isRated = True, tournamentId = Some tid,
       whiteEloChange = Some 0, blackEloChange = Some 0 \<rparr>"

text \<open>
  The loop of \<open>generateSingleEliminationRound\<close> over the shuffled list: \<open>i\<close> steps by 2,
  a pair gets a game and a match, a last single element (the bye) gets nothing. \<open>uuid\<close>
  gives the id the database draws for a new row, from the number of rows so far. The
  source logs the number of matches; the model returns the matches and the storage
  (\<open>Inr\<close>). The generators do not catch: a rejected insert ends the loop with the error
  and the storage as it is then (\<open>Inl\<close>), the games created before staying.
\<close>

function singleEliminationLoop ::
  "(nat \<Rightarrow> string) \<Rightarrow> string \<Rightarrow> Participant list \<Rightarrow> nat \<Rightarrow> TournamentMatch list \<Rightarrow> Storage
     \<Rightarrow> error \<times> Storage + TournamentMatch list \<times> Storage" where
  "singleEliminationLoop uuid tid shuffled i matches st =
     (if i < length shuffled then
        (if i + 1 < length shuffled then
           (case createGame (uuid (length (games st)))
                   (newTournamentGame (userId (shuffled ! i)) (userId (shuffled ! (i + 1))) tid) st of
              Inl e \<Rightarrow> Inl (e, st)
            | Inr (game, st') \<Rightarrow>
                singleEliminationLoop uuid tid shuffled (i + 2)
                  (matches @
                    [\<lparr> match_id = ''match_'' @ show_nat (i div 2 + 1),
                       player1Id = userId (shuffled ! i),
                       player2Id = userId (shuffled ! (i + 1)),
                       gameId = Some (game_id game),
                       match_result = None,
                       isComplete = False \<rparr>]) st')
         else singleEliminationLoop uuid tid shuffled (i + 2) matches st)
      else Inr (matches, st))"
  by pat_completeness auto
termination
  by (relation "measure (\<lambda>(uuid, tid, shuffled, i, matches, st). length shuffled - i)") auto

declare singleEliminationLoop.simps [simp del]

text \<open>
  \<open>shuffle\<close> stands for \<open>[...participants].sort(() => Math.random() - 0.5)\<close>, the
  random rearrangement of the participants.
\<close>

definition generateSingleEliminationRound ::
  "(Participant list \<Rightarrow> Participant list) \<Rightarrow> (nat \<Rightarrow> string) \<Rightarrow> string \<Rightarrow> Participant list \<Rightarrow> Storage
     \<Rightarrow> error \<times> Storage + TournamentMatch list \<times> Storage" where
  "generateSingleEliminationRound shuffle uuid tid participants st =
     singleEliminationLoop uuid tid (shuffle participants) 0 [] st"

definition generateDoubleEliminationRound ::
  "(Participant list \<Rightarrow> Participant list) \<Rightarrow> (nat \<Rightarrow> string) \<Rightarrow> string \<Rightarrow> Participant list \<Rightarrow> Storage
     \<Rightarrow> error \<times> Storage + TournamentMatch list \<times> Storage" where
  "generateDoubleEliminationRound shuffle uuid tid participants st =
     generateSingleEliminationRound shuffle uuid tid participants st"

definition generateSwissRound ::
  "(Participant list \<Rightarrow> Participant list) \<Rightarrow> (nat \<Rightarrow> string) \<Rightarrow> string \<Rightarrow> Participant list \<Rightarrow> Storage
     \<Rightarrow> error \<times> Storage + TournamentMatch list \<times> Storage" where
  "generateSwissRound shuffle uuid tid participants st =
     generateSingleEliminationRound shuffle uuid tid participants st"

text \<open>The two nested loops of \<open>generateRoundRobinRound\<close>: \<open>j\<close> runs from \<open>i + 1\<close>.\<close>

function roundRobinInner ::
  "(nat \<Rightarrow> string) \<Rightarrow> string \<Rightarrow> Participant list \<Rightarrow> nat \<Rightarrow> nat \<Rightarrow> TournamentMatch list \<Rightarrow> Storage
     \<Rightarrow> error \<times> Storage + TournamentMatch list \<times> Storage" where
  "roundRobinInner uuid tid participants i j matches st =
     (if j < length participants then
        (case createGame (uuid (length (games st)))
                (newTournamentGame (userId (participants ! i)) (userId (participants ! j)) tid) st of
           Inl e \<Rightarrow> Inl (e, st)
         | Inr (game, st') \<Rightarrow>
             roundRobinInner uuid tid participants i (j + 1)
               (matches @
                 [\<lparr> match_id = ''match_'' @ show_nat i @ ''_'' @ show_nat j,
                    player1Id = userId (participants ! i),
                    player2Id = userId (participants ! j),
                    gameId = Some (game_id game),
                    match_result = None,
                    isComplete = False \<rparr>]) st')
      else Inr (matches, st))"
  by pat_completeness auto
termination
  by (relation "measure (\<lambda>(uuid, tid, participants, i, j, matches, st). length participants - j)") auto

declare roundRobinInner.simps [simp del]

function roundRobinOuter ::
  "(nat \<Rightarrow> string) \<Rightarrow> string \<Rightarrow> Participant list \<Rightarrow> nat \<Rightarrow> TournamentMatch list \<Rightarrow> Storage
     \<Rightarrow> error \<times> Storage + TournamentMatch list \<times> Storage" where
  "roundRobinOuter uuid tid participants i matches st =
     (if i < length participants then
        (case roundRobinInner uuid tid participants i (i + 1) matches st of
           Inl failure \<Rightarrow> Inl failure
         | Inr (matches', st') \<Rightarrow> roundRobinOuter uuid tid participants (i + 1) matches' st')
      else Inr (matches, st))"
  by pat_completeness auto
termination
  by (relation "measure (\<lambda>(uuid, tid, participants, i, matches, st). length participants - i)") auto

declare roundRobinOuter.simps [simp del]

definition generateRoundRobinRound ::
  "(nat \<Rightarrow> string) \<Rightarrow> string \<Rightarrow> Participant list \<Rightarrow> Storage
     \<Rightarrow> error \<times> Storage + TournamentMatch list \<times> Storage" where
  "generateRoundRobinRound uuid tid participants st = roundRobinOuter uuid tid participants 0 [] st"

text \<open>
  \<open>generateRound\<close> keeps the storage only: the matches are local to the generators. An
  exception of a generator passes through it.
\<close>

fun storage_of :: "error \<times> Storage + TournamentMatch list \<times> Storage \<Rightarrow> error \<times> Storage + Storage" where
  "storage_of (Inl failure) = Inl failure"
| "storage_of (Inr (matches, st)) = Inr st"

definition generateRound ::
  "(Participant list \<Rightarrow> Participant list) \<Rightarrow> (nat \<Rightarrow> string) \<Rightarrow> string \<Rightarrow> Participant list \<Rightarrow> Storage
     \<Rightarrow> error \<times> Storage + Storage" where
  "generateRound shuffle uuid tid participants st =
     (case getTournament st tid of
        None \<Rightarrow> Inr st
      | Some tournament \<Rightarrow>
          (case rules tournament of
             None \<Rightarrow> Inr st
           | Some settings \<Rightarrow>
               if eliminationFormat settings = ''single''
                 then storage_of (generateSingleEliminationRound shuffle uuid tid participants st)
               else if eliminationFormat settings = ''double''
                 then storage_of (generateDoubleEliminationRound shuffle uuid tid participants st)
               else if eliminationFormat settings = ''swiss''
                 then storage_of (generateSwissRound shuffle uuid tid participants st)
               else if eliminationFormat settings = ''round_robin''
                 then storage_of (generateRoundRobinRound uuid tid participants st)
               else storage_of (generateSingleEliminationRound shuffle uuid tid participants st)))"

definition getTournamentParticipants :: "string \<Rightarrow> Storage \<Rightarrow> Participant list" where
  "getTournamentParticipants tid st = []"

definition getTournamentActiveGames :: "string \<Rightarrow> Storage \<Rightarrow> Game list" where
  "getTournamentActiveGames tid st = filter (\<lambda>game. tournamentId game = Some tid) (getActiveGames st)"

definition getRemainingPlayers :: "string \<Rightarrow> Storage \<Rightarrow> Participant list" where
  "getRemainingPlayers tid st = []"

text \<open>
  \<open>completeTournament\<close> writes the status and the winner; an undefined winner leaves
  the column as it is. The announcement goes to the messaging collaborator.
\<close>

definition completeTournament :: "string \<Rightarrow> string option \<Rightarrow> Storage \<Rightarrow> Storage" where
  "completeTournament tid winner st =
     updateTournament tid
       (\<lambda>t. case winner of
              None \<Rightarrow> t\<lparr>tournament_status := ''completed''\<rparr>
            | Some w \<Rightarrow> t\<lparr>tournament_status := ''completed'', winnerId := Some w\<rparr>) st"

text \<open>
  \<open>checkRoundCompletion\<close> catches and logs an exception of the round generation: the
  storage is then as the generator left it.
\<close>

definition checkRoundCompletion ::
  "(Participant list \<Rightarrow> Participant list) \<Rightarrow> (nat \<Rightarrow> string) \<Rightarrow> string \<Rightarrow> Storage \<Rightarrow> Storage" where
  "checkRoundCompletion shuffle uuid tid st =
     (case getTournament st tid of
        None \<Rightarrow> st
      | Some tournament \<Rightarrow>
          if tournament_status tournament \<noteq> ''active'' then st
          else
            let activeGames = getTournamentActiveGames tid st
            in if length activeGames = 0 then
                 (let remainingPlayers = getRemainingPlayers tid st
                  in if length remainingPlayers \<le> 1
                     then completeTournament tid
                            (case remainingPlayers of [] \<Rightarrow> None | p # _ \<Rightarrow> Some (userId p)) st
                     else (case generateRound shuffle uuid tid remainingPlayers st of
                             Inl (e, st') \<Rightarrow> st'
                           | Inr st' \<Rightarrow> st'))
               else st)"

text \<open>
  The patches of \<open>handleGameCompletion\<close> for the two players, from the rows read before
  the writes and the change of the white player's rating.
\<close>

definition whiteUpdates :: "User \<Rightarrow> string \<Rightarrow> int \<Rightarrow> UserUpdates" where
  "whiteUpdates whitePlayer result whiteChange =
     \<lparr> upd_eloRating = Some (coerce (eloRating whitePlayer) + whiteChange),
       upd_gamesPlayed = Some (coerce (gamesPlayed whitePlayer) + 1),
       upd_gamesWon = (if result = ''white_wins'' then Some (coerce (gamesWon whitePlayer) + 1)
                       else gamesWon whitePlayer),
       upd_gamesLost = (if result = ''black_wins'' then Some (coerce (gamesLost whitePlayer) + 1)
                        else gamesLost whitePlayer),
       upd_gamesDrawn = (if result = ''draw'' then Some (coerce (gamesDrawn whitePlayer) + 1)
                         else gamesDrawn whitePlayer) \<rparr>"

definition blackUpdates :: "User \<Rightarrow> string \<Rightarrow> int \<Rightarrow> UserUpdates" where
  "blackUpdates blackPlayer result blackChange =
     \<lparr> upd_eloRating = Some (coerce (eloRating blackPlayer) + blackChange),
       upd_gamesPlayed = Some (coerce (gamesPlayed blackPlayer) + 1),
       upd_gamesWon = (if result = ''black_wins'' then Some (coerce (gamesWon blackPlayer) + 1)
                       else gamesWon blackPlayer),
       upd_gamesLost = (if result = ''white_wins'' then Some (coerce (gamesLost blackPlayer) + 1)
                        else gamesLost blackPlayer),
       upd_gamesDrawn = (if result = ''draw'' then Some (coerce (gamesDrawn blackPlayer) + 1)
                         else gamesDrawn blackPlayer) \<rparr>"

text \<open>
  \<open>Promise.all\<close> over writes that are all issued before the first one settles: every
  write that the database accepts lands, in the order issued, and the promise is rejected
  with the first error if a write is rejected.
\<close>

fun promiseAll :: "(Storage \<Rightarrow> error + Storage) list \<Rightarrow> Storage \<Rightarrow> error option \<times> Storage" where
  "promiseAll [] st = (None, st)"
| "promiseAll (write # writes) st =
     (case write st of
        Inr st' \<Rightarrow> promiseAll writes st'
      | Inl e \<Rightarrow> (Some e, snd (promiseAll writes st)))"

text \<open>
  The rating update of \<open>handleGameCompletion\<close>. It ends with an exception (\<open>Some\<close>) when
  \<open>calculateEloChange\<close> throws, before any write, or when a write is rejected.
\<close>

definition updateTournamentRatings :: "string \<Rightarrow> string \<Rightarrow> Game \<Rightarrow> Storage \<Rightarrow> error option \<times> Storage" where
  "updateTournamentRatings gid result game st =
     (case (whitePlayerId game, blackPlayerId game) of
        (Some white, Some black) \<Rightarrow>
          if white \<noteq> [] \<and> black \<noteq> [] then
            (case (getUser st white, getUser st black) of
               (Some whitePlayer, Some blackPlayer) \<Rightarrow>
                 (case calculateEloChange (real_of_int (coerce (eloRating whitePlayer)))
                         (real_of_int (coerce (eloRating blackPlayer))) result of
                    Inl e \<Rightarrow> (Some e, st)
                  | Inr whiteChange \<Rightarrow>
                      let blackChange = - whiteChange
                      in promiseAll
                           [updateUser (user_id whitePlayer) (whiteUpdates whitePlayer result whiteChange),
                            updateUser (user_id blackPlayer) (blackUpdates blackPlayer result blackChange),
                            updateGame gid \<lparr> upd_whiteEloChange = Some whiteChange,
                                             upd_blackEloChange = Some blackChange \<rparr>] st)
             | _ \<Rightarrow> (None, st))
          else (None, st)
      | _ \<Rightarrow> (None, st))"

text \<open>
  \<open>handleGameCompletion\<close>: an exception is caught and logged, and the round check is
  skipped; otherwise the round check follows the rating update.
\<close>

definition handleGameCompletion ::
  "(Participant list \<Rightarrow> Participant list) \<Rightarrow> (nat \<Rightarrow> string) \<Rightarrow> string \<Rightarrow> string \<Rightarrow> Storage \<Rightarrow> Storage" where
  "handleGameCompletion shuffle uuid gid result st =
     (case getGame st gid of
        None \<Rightarrow> st
      | Some game \<Rightarrow>
          (case tournamentId game of
             None \<Rightarrow> st
           | Some tid \<Rightarrow>
               if tid = [] then st
               else
                 (case getTournament st tid of
                    None \<Rightarrow> st
                  | Some tournament \<Rightarrow>
                      (case updateTournamentRatings gid result game st of
                         (Some e, st1) \<Rightarrow> st1
                       | (None, st1) \<Rightarrow> checkRoundCompletion shuffle uuid tid st1))))"

text \<open>The two players of a match.\<close>

definition players :: "TournamentMatch \<Rightarrow> string \<times> string" where
  "players m = (player1Id m, player2Id m)"


text \<open>
  A player's statistics with room for two more games: every column that is not \<open>NULL\<close>
  is at most 2147483000 in absolute value.
\<close>

fun column_within :: "int \<Rightarrow> int option \<Rightarrow> bool" where
  "column_within m None = True"
| "column_within m (Some n) = (\<bar>n\<bar> \<le> m)"

definition columns_within :: "int \<Rightarrow> User \<Rightarrow> bool" where
  "columns_within m u =
     (column_within m (eloRating u) \<and> column_within m (gamesPlayed u) \<and> column_within m (gamesWon u)
      \<and> column_within m (gamesLost u) \<and> column_within m (gamesDrawn u))"

definition headroom :: "User \<Rightarrow> bool" where
  "headroom u = columns_within 2147483000 u"

text \<open>
  A storage for the replay of a match outcome: one tournament game, already completed,
  between two players rated 1200.
\<close>

definition replay_storage :: Storage where
  "replay_storage =
     \<lparr> users =
         [\<lparr>user_id = ''w'', eloRating = Some 1200, gamesPlayed = Some 50, gamesWon = Some 20,
           gamesLost = Some 20, gamesDrawn = Some 10\<rparr>,
          \<lparr>user_id = ''b'', eloRating = Some 1200, gamesPlayed = Some 50, gamesWon = Some 20,
           gamesLost = Some 20, gamesDrawn = Some 10\<rparr>],
       games =
         [\<lparr>game_id = ''g1'', whitePlayerId = Some ''w'', blackPlayerId = Some ''b'',
           game_status = ''completed'', isRated = True, tournamentId = Some ''t1'',
           whiteEloChange = Some 0, blackEloChange = Some 0\<rparr>],
       tournaments =
         [\<lparr>tournament_id = ''t1'', tournament_status = ''active'', winnerId = None, rules = None\<rparr>] \<rparr>"


section \<open>Properties of the rating engine\<close>

lemmas elo_constants =
  DEFAULT_K_FACTOR_def HIGH_RATING_THRESHOLD_def LOW_RATING_K_FACTOR_def
  MEDIUM_RATING_K_FACTOR_def HIGH_RATING_K_FACTOR_def PROVISIONAL_GAMES_THRESHOLD_def
  RATING_FLOOR_def RATING_CEILING_def

lemma Math_round_of_int: "Math_round (real_of_int n) = n"
  unfolding Math_round_def by linarith

lemma Math_round_add_int: "Math_round (real_of_int n + x) = n + Math_round x"
  unfolding Math_round_def by linarith

lemma Math_round_bounds: "real_of_int (Math_round x) \<le> x + 1 / 2 \<and> x - 1 / 2 < real_of_int (Math_round x)"
  unfolding Math_round_def by linarith

lemma calculateExpectedScore_equal: "calculateExpectedScore a a = 1 / 2"
  by (simp add: calculateExpectedScore_def Math_pow_def)

subsection \<open>Numeric bounds\<close>

lemma pow_bound: "(10::real) \<le> (1003 / 1000) ^ 800"
proof -
  have a: "(1003 / 1000 :: real) ^ 16 \<ge> 1049 / 1000" by (simp add: power_divide)
  have b: "(1049 / 1000 :: real) ^ 10 \<ge> 161 / 100" by (simp add: power_divide)
  have c: "(161 / 100 :: real) ^ 5 \<ge> 10" by (simp add: power_divide)
  have "(1003 / 1000 :: real) ^ 800 = (((1003 / 1000) ^ 16) ^ 10) ^ 5"
    by (simp only: power_mult [symmetric]) simp
  moreover have "(((1003 / 1000 :: real) ^ 16) ^ 10) ^ 5 \<ge> ((1049 / 1000) ^ 10) ^ 5"
    by (intro power_mono a) simp_all
  moreover have "((1049 / 1000 :: real) ^ 10) ^ 5 \<ge> (161 / 100) ^ 5"
    by (intro power_mono b) simp_all
  ultimately show ?thesis using c by linarith
qed

lemma root_bound: "(10::real) powr (1 / 800) \<le> 1003 / 1000"
proof -
  have e: "(1003 / 1000 :: real) powr 800 = (1003 / 1000) ^ 800"
    by (rule powr_numeral) simp
  have "(10::real) powr (1 / 800) \<le> ((1003 / 1000) powr 800) powr (1 / 800)"
    unfolding e by (rule powr_mono2) (use pow_bound in simp_all)
  also have "\<dots> = 1003 / 1000"
    by (simp only: powr_powr) simp
  finally show ?thesis .
qed

lemma log3_lower: "31 / 65 \<le> log 10 (3::real)"
proof -
  have e1: "log 10 ((10::real) ^ 31) = 31" by (subst log_nat_power) simp_all
  have e2: "log 10 ((3::real) ^ 65) = 65 * log 10 3" by (subst log_nat_power) simp_all
  have "log 10 ((10::real) ^ 31) \<le> log 10 (3 ^ 65)"
    by (subst log_le_cancel_iff) simp_all
  then show ?thesis unfolding e1 e2 by simp
qed

lemma log3_upper: "log 10 (3::real) \<le> 11 / 23"
proof -
  have e1: "log 10 ((10::real) ^ 11) = 11" by (subst log_nat_power) simp_all
  have e2: "log 10 ((3::real) ^ 23) = 23 * log 10 3" by (subst log_nat_power) simp_all
  have "log 10 ((3::real) ^ 23) \<le> log 10 (10 ^ 11)"
    by (subst log_le_cancel_iff) simp_all
  then show ?thesis unfolding e1 e2 by simp
qed

lemma round_log3: "Math_round (1600 + 400 * log 10 (3::real)) = 1791"
  unfolding Math_round_def using log3_lower log3_upper by linarith

text \<open>
  The expected score of a rating that is off the exact inverse by a factor \<open>t\<close> of the
  odds, \<open>t\<close> within 3 per mille of 1.
\<close>

lemma inverse_bound:
  assumes p: "0 < p" "p < 1" and t: "1000 / 1003 \<le> t" "t \<le> 1003 / 1000"
  shows "\<bar>p / (p + t * (1 - p)) - p\<bar> \<le> 1 / (1000::real)"
proof -
  define a where "a = t * (1 - p)"
  have "(1000 / 1003) * (1 - p) \<le> a"
    unfolding a_def using t p by (intro mult_right_mono) simp_all
  then have "1000 / 1003 \<le> p + a"
    using p by (simp add: field_simps)
  then have den: "1000 / 1003 \<le> p + t * (1 - p)"
    by (simp only: a_def)
  then have dpos: "0 < p + t * (1 - p)" by linarith
  have "0 \<le> (p - 1 / 2)\<^sup>2" by simp
  then have pq: "p * (1 - p) \<le> 1 / 4"
    by (simp add: power2_eq_square algebra_simps)
  have ab: "\<bar>1 - t\<bar> \<le> 3 / 1000" using t by linarith
  have num: "p * (1 - p) * \<bar>1 - t\<bar> \<le> 1 / 4 * (3 / 1000)"
    using pq ab p by (intro mult_mono) simp_all
  have eq: "p / (p + t * (1 - p)) - p = p * (1 - p) * (1 - t) / (p + t * (1 - p))"
    using dpos by (simp add: field_simps)
  have "\<bar>p / (p + t * (1 - p)) - p\<bar> = p * (1 - p) * \<bar>1 - t\<bar> / (p + t * (1 - p))"
    unfolding eq using p dpos by (simp add: abs_mult)
  also have "\<dots> \<le> (1 / 4 * (3 / 1000)) / (1000 / 1003)"
    using num den p by (intro frac_le) simp_all
  also have "\<dots> \<le> 1 / 1000" by simp
  finally show ?thesis .
qed

lemma expected_of_required:
  assumes p: "0 < p" "p < 1"
  shows "\<bar>calculateExpectedScore (real_of_int (Math_round (opp + 400 * Math_log10 (p / (1 - p))))) opp - p\<bar>
           \<le> 1 / 1000"
proof -
  define q where "q = p / (1 - p)"
  define r where "r = real_of_int (Math_round (opp + 400 * log 10 q))"
  define e where "e = r - (opp + 400 * log 10 q)"
  define t where "t = (10::real) powr (- e / 400)"
  have qpos: "0 < q" using p by (simp add: q_def)
  have e_bounds: "- (1 / 2) < e" "e \<le> 1 / 2"
    using Math_round_bounds [of "opp + 400 * log 10 q"] by (simp_all add: e_def r_def)
  have "t \<le> 10 powr (1 / 800)"
    unfolding t_def using e_bounds by (intro powr_mono) simp_all
  then have t_upper: "t \<le> 1003 / 1000" using root_bound by linarith
  have "(10::real) powr (- (1 / 800)) \<le> t"
    unfolding t_def using e_bounds by (intro powr_mono) simp_all
  moreover have "1000 / 1003 \<le> (10::real) powr (- (1 / 800))"
  proof -
    have "0 < (10::real) powr (1 / 800)" by simp
    then have "1 / (1003 / 1000) \<le> 1 / (10::real) powr (1 / 800)"
      using root_bound by (intro divide_left_mono) simp_all
    then show ?thesis by (simp add: powr_minus_divide)
  qed
  ultimately have t_lower: "1000 / 1003 \<le> t" by linarith
  have "(opp - r) / 400 = - log 10 q + (- e / 400)"
    by (simp add: e_def field_simps)
  then have "(10::real) powr ((opp - r) / 400) = 10 powr (- log 10 q) * t"
    by (simp only: powr_add t_def)
  also have "(10::real) powr (- log 10 q) = 1 / q"
    using qpos by (simp add: powr_minus_divide)
  finally have pw: "(10::real) powr ((opp - r) / 400) = t * (1 - p) / p"
    using p by (simp add: q_def)
  have "calculateExpectedScore r opp = 1 / (1 + t * (1 - p) / p)"
    by (simp add: calculateExpectedScore_def Math_pow_def pw)
  also have "\<dots> = p / (p + t * (1 - p))"
    using p by (simp add: field_simps)
  finally have "calculateExpectedScore r opp = p / (p + t * (1 - p))" .
  then show ?thesis
    using inverse_bound [OF p t_lower t_upper] by (simp add: r_def q_def Math_log10_def)
qed

text \<open>
  The exact value of \<open>calculatePerformanceRating\<close> at a rounding tie: 20 wins and 2
  losses, an average opponent rating of 100.5 and odds of exactly 10 give 500.5, which
  rounds to 501. The doubles of the program give odds just below 10 and the result 500: the
  value of the function on a non-empty list depends on the rounding of the doubles, which
  this model leaves out.
\<close>

lemma calculatePerformanceRating_tie:
  "calculatePerformanceRating
     [\<lparr>g_opponentRating = 100, g_result = win\<rparr>,
      \<lparr>g_opponentRating = 100, g_result = win\<rparr>,
      \<lparr>g_opponentRating = 100, g_result = win\<rparr>,
      \<lparr>g_opponentRating = 100, g_result = win\<rparr>,
      \<lparr>g_opponentRating = 100, g_result = win\<rparr>,
      \<lparr>g_opponentRating = 100, g_result = win\<rparr>,
      \<lparr>g_opponentRating = 100, g_result = win\<rparr>,
      \<lparr>g_opponentRating = 100, g_result = win\<rparr>,
      \<lparr>g_opponentRating = 100, g_result = win\<rparr>,
      \<lparr>g_opponentRating = 100, g_result = win\<rparr>,
      \<lparr>g_opponentRating = 100, g_result = win\<rparr>,
      \<lparr>g_opponentRating = 100, g_result = win\<rparr>,
      \<lparr>g_opponentRating = 100, g_result = win\<rparr>,
      \<lparr>g_opponentRating = 100, g_result = win\<rparr>,
      \<lparr>g_opponentRating = 100, g_result = win\<rparr>,
      \<lparr>g_opponentRating = 100, g_result = win\<rparr>,
      \<lparr>g_opponentRating = 100, g_result = win\<rparr>,
      \<lparr>g_opponentRating = 100, g_result = win\<rparr>,
      \<lparr>g_opponentRating = 100, g_result = win\<rparr>,
      \<lparr>g_opponentRating = 111, g_result = win\<rparr>,
      \<lparr>g_opponentRating = 100, g_result = loss\<rparr>,
      \<lparr>g_opponentRating = 100, g_result = loss\<rparr>] = 501"
  by (simp add: calculatePerformanceRating_def Math_round_def Math_log10_def)

subsection \<open>Claims about the rating engine\<close>

text \<open>
  Claim C1, as the code has it: for \<open>calculateNewRatings(1200, 1200, 50, 50, 'player1_wins')\<close>
  with no options the expected score is 0.5 on both sides, but the K-factor of a
  non-provisional player rated 1200 is 40 (the band below 2100), not 32, so the changes are
  +20 and -20 and the new ratings 1220 and 1180.
\<close>

theorem calculateNewRatings_1200_1200:
  "calculateKFactor 1200 50 None = 40
   \<and> calculateExpectedScore 1200 1200 = 1 / 2
   \<and> calculateNewRatings 1200 1200 50 50 player1_wins None =
       \<lparr> newRatingPlayer1 = 1220, newRatingPlayer2 = 1180, changePlayer1 = 20, changePlayer2 = - 20 \<rparr>"
  by (simp add: calculateNewRatings_def calculateExpectedScore_def calculateKFactor_def
      Math_pow_def Math_round_def elo_constants)

text \<open>Claim C1 as stated (changes +16 and -16) fails at its own input.\<close>

theorem calculateNewRatings_1200_1200_not_16:
  "\<not> (changePlayer1 (calculateNewRatings 1200 1200 50 50 player1_wins None) = 16
      \<and> changePlayer2 (calculateNewRatings 1200 1200 50 50 player1_wins None) = - 16)"
  by (simp add: calculateNewRatings_def calculateExpectedScore_def calculateKFactor_def
      Math_pow_def Math_round_def elo_constants)

text \<open>
  Claim C3, as the code has it: \<open>calculateKFactor\<close> returns the override \<open>kFactor\<close> of the
  options when one is supplied and is not 0; otherwise 40 when \<open>gamesPlayed\<close> is below the
  provisional threshold (the options' \<open>provisionalThreshold\<close> when supplied and not 0,
  else 30), whatever the rating; otherwise 16 for a rating of at least 2400, 32 for one of at
  least 2100, and 40 below.
\<close>

theorem calculateKFactor_cases:
  "(chain kFactor options = Some k \<and> k \<noteq> 0 \<longrightarrow> calculateKFactor r g options = k)
   \<and> (chain kFactor options \<in> {None, Some 0}
        \<and> g < or_else (chain provisionalThreshold options) 30
      \<longrightarrow> calculateKFactor r g options = 40)
   \<and> (chain kFactor options \<in> {None, Some 0}
        \<and> \<not> g < or_else (chain provisionalThreshold options) 30
      \<longrightarrow> calculateKFactor r g options = (if 2400 \<le> r then 16 else if 2100 \<le> r then 32 else 40))"
  by (auto simp add: calculateKFactor_def elo_constants)

theorem calculateKFactor_cases_witness:
  "calculateKFactor 1200 50
     (Some \<lparr>kFactor = Some 24, provisionalThreshold = None, ratingFloor = None, ratingCeiling = None\<rparr>) = 24
   \<and> calculateKFactor 2500 10 None = 40
   \<and> calculateKFactor 2500 50 None = 16
   \<and> calculateKFactor 2200 50 None = 32
   \<and> calculateKFactor 1200 50 None = 40
   \<and> calculateKFactor 2500 10
     (Some \<lparr>kFactor = None, provisionalThreshold = Some 5, ratingFloor = None, ratingCeiling = None\<rparr>) = 16"
  using calculateKFactor_cases [of
      "Some \<lparr>kFactor = Some 24, provisionalThreshold = None, ratingFloor = None, ratingCeiling = None\<rparr>"
      24 1200 50]
    calculateKFactor_cases [of None 0 2500 10]
    calculateKFactor_cases [of None 0 2500 50]
    calculateKFactor_cases [of None 0 2200 50]
    calculateKFactor_cases [of None 0 1200 50]
    calculateKFactor_cases [of
      "Some \<lparr>kFactor = None, provisionalThreshold = Some 5, ratingFloor = None, ratingCeiling = None\<rparr>"
      0 2500 10]
  by simp

text \<open>
  Claim C3 as stated fails where an override is the number 0: an explicit K-factor 0 is
  not returned (a non-provisional player rated 1200 gets 40), and a provisional threshold 0
  is replaced by 30 (a player rated 2500 with 10 games gets 40, not 16).
\<close>

theorem calculateKFactor_zero_override:
  "calculateKFactor 1200 50
     (Some \<lparr>kFactor = Some 0, provisionalThreshold = None, ratingFloor = None, ratingCeiling = None\<rparr>) = 40
   \<and> calculateKFactor 2500 10
     (Some \<lparr>kFactor = None, provisionalThreshold = Some 0, ratingFloor = None, ratingCeiling = None\<rparr>) = 40"
  by (simp add: calculateKFactor_def elo_constants)

text \<open>
  Claim C4, as the code has it: with \<open>floor\<close> the options' \<open>ratingFloor\<close> when supplied
  and not 0, else 100, and \<open>ceiling\<close> the options' \<open>ratingCeiling\<close> when supplied and not
  0, else 3000, both new ratings of \<open>calculateNewRatings\<close> are at least \<open>floor\<close>, and they
  are at most \<open>ceiling\<close> whenever \<open>floor \<le> ceiling\<close>.
\<close>

theorem calculateNewRatings_clamped:
  assumes "fl = or_else (chain ratingFloor options) 100"
    and "ce = or_else (chain ratingCeiling options) 3000"
  shows "fl \<le> newRatingPlayer1 (calculateNewRatings r1 r2 g1 g2 outcome options)
       \<and> fl \<le> newRatingPlayer2 (calculateNewRatings r1 r2 g1 g2 outcome options)
       \<and> (fl \<le> ce \<longrightarrow>
            newRatingPlayer1 (calculateNewRatings r1 r2 g1 g2 outcome options) \<le> ce
          \<and> newRatingPlayer2 (calculateNewRatings r1 r2 g1 g2 outcome options) \<le> ce)"
  using assms by (simp add: calculateNewRatings_def Let_def elo_constants)

theorem calculateNewRatings_clamped_witness:
  "100 \<le> newRatingPlayer1 (calculateNewRatings 2990 1000 50 50 player1_wins None)
   \<and> newRatingPlayer1 (calculateNewRatings 2990 1000 50 50 player1_wins None) \<le> 3000
   \<and> 100 \<le> newRatingPlayer2 (calculateNewRatings 2990 1000 50 50 player1_wins None)
   \<and> newRatingPlayer2 (calculateNewRatings 2990 1000 50 50 player1_wins None) \<le> 3000"
  using calculateNewRatings_clamped [of 100 None 3000 2990 1000 50 50 player1_wins]
  by simp

text \<open>
  Claim C4 as stated fails for overrides: a floor 5000 above the default ceiling 3000 gives
  a new rating 5000, and the options \<open>{ratingFloor: 0, ratingCeiling: 50}\<close> give 100 (the
  floor 0 is replaced by 100), outside the interval from 0 to 50.
\<close>

theorem calculateNewRatings_outside_bounds:
  "newRatingPlayer1 (calculateNewRatings 1200 1200 50 50 player1_wins
     (Some \<lparr>kFactor = None, provisionalThreshold = None, ratingFloor = Some 5000, ratingCeiling = None\<rparr>))
     = 5000
   \<and> newRatingPlayer1 (calculateNewRatings 1200 1200 50 50 player1_wins
     (Some \<lparr>kFactor = None, provisionalThreshold = None, ratingFloor = Some 0, ratingCeiling = Some 50\<rparr>))
     = 100"
  by (simp add: calculateNewRatings_def calculateExpectedScore_def calculateKFactor_def
      Math_pow_def Math_round_def elo_constants)

text \<open>
  Claim C6: \<open>calculateRequiredRating\<close> inverts \<open>calculateExpectedScore\<close> up to the rounding
  of the rating: for every opponent rating and every target score \<open>p\<close> strictly between 0
  and 1 it returns a rating whose expected score against the opponent is within 1/1000 of
  \<open>p\<close>; and \<open>calculateRequiredRating(1600, 0.75)\<close> is
  \<open>1600 + round(400 * log10(0.75 / 0.25))\<close>, which is 1791.
\<close>

theorem calculateRequiredRating_inverse:
  "(0 < p \<and> p < 1 \<longrightarrow>
      (\<exists>r. calculateRequiredRating (Finite opp) (Finite p) = Inr (Finite (real_of_int r))
         \<and> \<bar>calculateExpectedScore (real_of_int r) opp - p\<bar> \<le> 1 / 1000))
   \<and> calculateRequiredRating (Finite 1600) (Finite 0.75)
       = Inr (Finite (real_of_int (1600 + Math_round (400 * Math_log10 (0.75 / 0.25)))))
   \<and> calculateRequiredRating (Finite 1600) (Finite 0.75) = Inr (Finite 1791)"
proof (intro conjI impI)
  assume "0 < p \<and> p < 1"
  then show "\<exists>r. calculateRequiredRating (Finite opp) (Finite p) = Inr (Finite (real_of_int r))
      \<and> \<bar>calculateExpectedScore (real_of_int r) opp - p\<bar> \<le> 1 / 1000"
    using expected_of_required [of p opp] by (simp add: calculateRequiredRating_def)
next
  have "Math_round (1600 + 400 * log 10 (3::real)) = 1600 + Math_round (400 * log 10 3)"
    using Math_round_add_int [of 1600 "400 * log 10 3"] by simp
  then show "calculateRequiredRating (Finite 1600) (Finite 0.75)
      = Inr (Finite (real_of_int (1600 + Math_round (400 * Math_log10 (0.75 / 0.25)))))"
    by (simp add: calculateRequiredRating_def Math_log10_def)
next
  show "calculateRequiredRating (Finite 1600) (Finite 0.75) = Inr (Finite 1791)"
    using round_log3 by (simp add: calculateRequiredRating_def Math_log10_def)
qed

theorem calculateRequiredRating_inverse_witness:
  "\<exists>r. calculateRequiredRating (Finite 1500) (Finite (1 / 2)) = Inr (Finite (real_of_int r))
     \<and> \<bar>calculateExpectedScore (real_of_int r) 1500 - 1 / 2\<bar> \<le> 1 / 1000"
  using calculateRequiredRating_inverse [of "1 / 2" 1500] by simp

text \<open>
  Claim C8: for all ratings \<open>a\<close> and \<open>b\<close> the expected scores of the two sides add up to
  1, and the expected score between equal ratings is 0.5 (exactly, over the reals).
\<close>

theorem calculateExpectedScore_symmetric:
  "calculateExpectedScore a b + calculateExpectedScore b a = 1
   \<and> calculateExpectedScore a a = 1 / 2"
proof -
  define x where "x = (10::real) powr ((b - a) / 400)"
  have xpos: "0 < x" by (simp add: x_def)
  have inv: "(10::real) powr ((a - b) / 400) = 1 / x"
  proof -
    have "(a - b) / 400 = - ((b - a) / 400)" by (simp add: field_simps)
    then show ?thesis unfolding x_def by (simp only: powr_minus_divide)
  qed
  have "1 / (1 + x) + 1 / (1 + 1 / x) = 1"
    using xpos by (simp add: field_simps)
  then show ?thesis
    by (simp add: calculateExpectedScore_def Math_pow_def inv x_def [symmetric])
qed

text \<open>
  Claim C9, as the code has it: for every opponent rating and every target score that is
  not \<open>NaN\<close>, finite or infinite, \<open>calculateRequiredRating\<close> throws exactly when the
  target score is not strictly between 0 and 1; for a finite opponent rating and a target
  score strictly between 0 and 1 it returns an integer.
\<close>

theorem calculateRequiredRating_error_iff:
  "(t \<noteq> NaN \<longrightarrow>
      ((\<exists>e. calculateRequiredRating opp t = Inl e) \<longleftrightarrow> \<not> (\<exists>p. t = Finite p \<and> 0 < p \<and> p < 1)))
   \<and> (0 < p \<and> p < 1 \<longrightarrow>
        (\<exists>n. calculateRequiredRating (Finite rating) (Finite p) = Inr (Finite (real_of_int n))))"
  by (cases t) (auto simp add: calculateRequiredRating_def Let_def)

theorem calculateRequiredRating_error_iff_witness:
  "(\<exists>n. calculateRequiredRating (Finite 1600) (Finite (1 / 2)) = Inr (Finite (real_of_int n)))
   \<and> (\<exists>e. calculateRequiredRating (Finite 1600) (Finite 1) = Inl e)
   \<and> (\<exists>e. calculateRequiredRating (Finite 1600) (Finite 0) = Inl e)
   \<and> (\<exists>e. calculateRequiredRating (Finite 1600) (Finite (- 3)) = Inl e)
   \<and> (\<exists>e. calculateRequiredRating (Finite 1600) Infinity = Inl e)
   \<and> (\<exists>e. calculateRequiredRating NaN NegInfinity = Inl e)"
  using calculateRequiredRating_error_iff [of "Finite (1 / 2)" "Finite 1600" "1 / 2" 1600]
    calculateRequiredRating_error_iff [of "Finite 1" "Finite 1600" "1 / 2" 1600]
    calculateRequiredRating_error_iff [of "Finite 0" "Finite 1600" "1 / 2" 1600]
    calculateRequiredRating_error_iff [of "Finite (- 3)" "Finite 1600" "1 / 2" 1600]
    calculateRequiredRating_error_iff [of Infinity "Finite 1600" "1 / 2" 1600]
    calculateRequiredRating_error_iff [of NegInfinity NaN "1 / 2" 1600]
  by simp

text \<open>
  Claim C9 as stated fails at the target score \<open>NaN\<close>, which is not between 0 and 1: both
  comparisons of the guard are false, nothing is thrown and the result is \<open>NaN\<close>. And
  at the opponent rating \<open>NaN\<close> a target score between 0 and 1 returns \<open>NaN\<close>, which
  is no integer.
\<close>

theorem calculateRequiredRating_NaN:
  "calculateRequiredRating (Finite 1600) NaN = Inr NaN
   \<and> calculateRequiredRating NaN (Finite (1 / 2)) = Inr NaN"
  by (simp add: calculateRequiredRating_def)

text \<open>
  Claim C10: \<open>calculatePerformanceRating\<close> of the empty list of results returns 0; it
  does not fail.
\<close>

theorem calculatePerformanceRating_empty: "calculatePerformanceRating [] = 0"
  by (simp add: calculatePerformanceRating_def)

section \<open>Properties of the bracket generators\<close>

lemma players_match [simp]:
  "players \<lparr>match_id = a, player1Id = p1, player2Id = p2, gameId = g, match_result = r, isComplete = c\<rparr>
     = (p1, p2)"
  by (simp add: players_def)


















text \<open>
  Without users the first insert is rejected by the foreign keys and the generator throws.
\<close>

lemma generateSingleEliminationRound_no_users:
  "generateSingleEliminationRound rev show_nat ''t1''
        [\<lparr>userId = ''a''\<rparr>, \<lparr>userId = ''b''\<rparr>, \<lparr>userId = ''c''\<rparr>] \<lparr>users = [], games = [], tournaments = []\<rparr>
    = Inl (Error ''insert or update on table games violates a constraint'', \<lparr>users = [], games = [], tournaments = []\<rparr>)"
  by (simp add: generateSingleEliminationRound_def singleEliminationLoop.simps [of _ _ _ 0]
      createGame_def newTournamentGame_def getUser_def)



section \<open>Properties of the tournament service\<close>

lemma find_map_preserve: "(\<And>x. P (g x) = P x) \<Longrightarrow> find P (map g xs) = map_option g (find P xs)"
  by (induction xs) simp_all

lemma find_key: "find (\<lambda>x. key x = k) xs = Some y \<Longrightarrow> key y = k"
  by (induction xs) (auto split: if_splits)

lemma user_id_applyUpdates [simp]: "user_id (applyUpdates updates u) = user_id u"
  by (simp add: applyUpdates_def)

lemma updateUser_writable:
  "writable updates \<Longrightarrow>
   updateUser k updates st
     = Inr (st\<lparr>users := map (\<lambda>u. if user_id u = k then applyUpdates updates u else u) (users st)\<rparr>)"
  by (simp add: updateUser_def)

lemma getUser_after_update:
  "getUser (st\<lparr>users := map (\<lambda>u. if user_id u = k then applyUpdates updates u else u) (users st)\<rparr>) k'
     = map_option (\<lambda>u. if user_id u = k then applyUpdates updates u else u) (getUser st k')"
  unfolding getUser_def by (simp add: find_map_preserve)

lemma getUser_user_id: "getUser st k = Some u \<Longrightarrow> user_id u = k"
  unfolding getUser_def by (rule find_key)

lemma checkRoundCompletion_users [simp]: "users (checkRoundCompletion shuffle uuid tid st) = users st"
  by (simp add: checkRoundCompletion_def getRemainingPlayers_def completeTournament_def
      updateTournament_def Let_def split: option.split)

lemma checkRoundCompletion_games [simp]: "games (checkRoundCompletion shuffle uuid tid st) = games st"
  by (simp add: checkRoundCompletion_def getRemainingPlayers_def completeTournament_def
      updateTournament_def Let_def split: option.split)

lemma getTournament_checkRoundCompletion:
  "getTournament st k = Some t \<Longrightarrow> \<exists>t'. getTournament (checkRoundCompletion shuffle uuid tid st) k = Some t'"
  by (simp add: checkRoundCompletion_def getRemainingPlayers_def completeTournament_def
      updateTournament_def getTournament_def Let_def find_map_preserve split: option.split)

lemma unit_fraction: "0 < p \<Longrightarrow> 0 < 1 / (1 + p) \<and> 1 / (1 + p) < (1::real)"
  by (simp add: field_simps)

lemma expected_score_bounds: "0 < calculateExpectedScore x y \<and> calculateExpectedScore x y < 1"
  using unit_fraction [of "10 powr ((y - x) / 400)"]
  by (simp add: calculateExpectedScore_def Math_pow_def)

lemma eloChange_bound:
  "\<bar>EloCalculator_calculateEloChange x y r None\<bar> \<le> 40"
proof -
  define E where "E = calculateExpectedScore x y"
  define K where "K = calculateKFactor x 50 None"
  have E: "0 < E" "E < 1" using expected_score_bounds [of x y] by (simp_all add: E_def)
  have K: "K = 16 \<or> K = 32 \<or> K = 40"
    by (simp add: K_def calculateKFactor_def elo_constants)
  have a: "actualScore r = 0 \<or> actualScore r = 1 / 2 \<or> actualScore r = 1"
    by (cases r) simp_all
  have d: "- 1 < actualScore r - E" "actualScore r - E < 1"
    using a E by linarith+
  have "- 40 < K * (actualScore r - E) \<and> K * (actualScore r - E) < 40"
  proof -
    consider "K = 16" | "K = 32" | "K = 40" using K by blast
    then show ?thesis
    proof cases
      case 1 then show ?thesis using d by simp
    next
      case 2 then show ?thesis using d by simp
    next
      case 3 then show ?thesis using d by simp
    qed
  qed
  then have "\<bar>Math_round (K * (actualScore r - E))\<bar> \<le> 40"
    unfolding Math_round_def by linarith
  then show ?thesis
    by (simp add: EloCalculator_calculateEloChange_def E_def K_def)
qed

lemma result_of_chain:
  "(if W then Inr a else if L then Inr b else if D then Inr d else Inl e) = Inr c
    \<Longrightarrow> c = a \<or> c = b \<or> c = d"
  by (simp split: if_splits)

lemma calculateEloChange_bound:
  assumes "calculateEloChange x y result = Inr c"
  shows "\<bar>c\<bar> \<le> 40"
proof -
  have "c = EloCalculator_calculateEloChange x y win None
      \<or> c = EloCalculator_calculateEloChange x y loss None
      \<or> c = EloCalculator_calculateEloChange x y draw None"
    using assms unfolding calculateEloChange_def by (rule result_of_chain)
  then show ?thesis
    using eloChange_bound [of x y win] eloChange_bound [of x y loss] eloChange_bound [of x y draw]
    by (elim disjE) simp_all
qed

lemma column_step:
  "column_within m v \<Longrightarrow> \<bar>d\<bar> \<le> 40 \<Longrightarrow> m + 40 \<le> 2147483647 \<Longrightarrow> 0 \<le> m
    \<Longrightarrow> int4 (coerce v + d) \<and> \<bar>coerce v + d\<bar> \<le> m + 40"
  by (cases v) (simp_all add: int4_def, linarith+)

lemma column_keep:
  "column_within m v \<Longrightarrow> m + 40 \<le> 2147483647 \<Longrightarrow> int4_column v \<and> column_within (m + 40) v"
  by (cases v) (simp_all add: int4_def, linarith)

lemma whiteUpdates_room:
  assumes "columns_within m u" "\<bar>c\<bar> \<le> 40" "m + 40 \<le> 2147483647" "0 \<le> m"
  shows "writable (whiteUpdates u result c)"
    and "columns_within (m + 40) (applyUpdates (whiteUpdates u result c) u)"
proof -
  have one: "\<bar>1::int\<bar> \<le> 40" by simp
  have cols: "column_within m (eloRating u)" "column_within m (gamesPlayed u)"
    "column_within m (gamesWon u)" "column_within m (gamesLost u)" "column_within m (gamesDrawn u)"
    using assms(1) by (simp_all add: columns_within_def)
  note r = column_step [OF cols(1) assms(2,3,4)]
  note p = column_step [OF cols(2) one assms(3,4)]
  note w = column_step [OF cols(3) one assms(3,4)] column_keep [OF cols(3) assms(3)]
  note l = column_step [OF cols(4) one assms(3,4)] column_keep [OF cols(4) assms(3)]
  note d = column_step [OF cols(5) one assms(3,4)] column_keep [OF cols(5) assms(3)]
  show "writable (whiteUpdates u result c)"
    using r p w l d by (simp add: writable_def whiteUpdates_def)
  show "columns_within (m + 40) (applyUpdates (whiteUpdates u result c) u)"
    using r p w l d by (simp add: applyUpdates_def whiteUpdates_def columns_within_def)
qed

lemma blackUpdates_room:
  assumes "columns_within m u" "\<bar>c\<bar> \<le> 40" "m + 40 \<le> 2147483647" "0 \<le> m"
  shows "writable (blackUpdates u result c)"
    and "columns_within (m + 40) (applyUpdates (blackUpdates u result c) u)"
proof -
  have one: "\<bar>1::int\<bar> \<le> 40" by simp
  have cols: "column_within m (eloRating u)" "column_within m (gamesPlayed u)"
    "column_within m (gamesWon u)" "column_within m (gamesLost u)" "column_within m (gamesDrawn u)"
    using assms(1) by (simp_all add: columns_within_def)
  note r = column_step [OF cols(1) assms(2,3,4)]
  note p = column_step [OF cols(2) one assms(3,4)]
  note w = column_step [OF cols(3) one assms(3,4)] column_keep [OF cols(3) assms(3)]
  note l = column_step [OF cols(4) one assms(3,4)] column_keep [OF cols(4) assms(3)]
  note d = column_step [OF cols(5) one assms(3,4)] column_keep [OF cols(5) assms(3)]
  show "writable (blackUpdates u result c)"
    using r p w l d by (simp add: writable_def blackUpdates_def)
  show "columns_within (m + 40) (applyUpdates (blackUpdates u result c) u)"
    using r p w l d by (simp add: applyUpdates_def blackUpdates_def columns_within_def)
qed

lemma game_keys_after_update:
  "map_option (\<lambda>g. (tournamentId g, whitePlayerId g, blackPlayerId g))
     (find (\<lambda>g. game_id g = k')
        (map (\<lambda>g. if game_id g = k then g\<lparr>whiteEloChange := x, blackEloChange := y\<rparr> else g) gs))
   = map_option (\<lambda>g. (tournamentId g, whitePlayerId g, blackPlayerId g)) (find (\<lambda>g. game_id g = k') gs)"
  by (induction gs) simp_all

lemma updateTournamentRatings_step:
  assumes "whitePlayerId game = Some w" "blackPlayerId game = Some b" "w \<noteq> []" "b \<noteq> []" "w \<noteq> b"
    and "getUser st w = Some wp" "getUser st b = Some bp"
    and "calculateEloChange (real_of_int (coerce (eloRating wp))) (real_of_int (coerce (eloRating bp))) result
          = Inr c"
    and "writable (whiteUpdates wp result c)" "writable (blackUpdates bp result (- c))"
  shows "\<exists>st1. updateTournamentRatings gid result game st = (None, st1)
      \<and> getUser st1 w = Some (applyUpdates (whiteUpdates wp result c) wp)
      \<and> getUser st1 b = Some (applyUpdates (blackUpdates bp result (- c)) bp)
      \<and> getTournament st1 = getTournament st
      \<and> map_option (\<lambda>g. (tournamentId g, whitePlayerId g, blackPlayerId g)) (getGame st1 gid)
          = map_option (\<lambda>g. (tournamentId g, whitePlayerId g, blackPlayerId g)) (getGame st gid)"
proof -
  have ids: "user_id wp = w" "user_id bp = b"
    using assms(6,7) by (simp_all add: getUser_user_id)
  have c: "int4 c" "int4 (- c)"
    using calculateEloChange_bound [OF assms(8)] unfolding int4_def by linarith+
  let ?st1 = "st\<lparr>users := map (\<lambda>u. if user_id u = w then applyUpdates (whiteUpdates wp result c) u else u)
      (users st)\<rparr>"
  let ?st2 = "?st1\<lparr>users := map (\<lambda>u. if user_id u = b then applyUpdates (blackUpdates bp result (- c)) u else u)
      (users ?st1)\<rparr>"
  let ?st3 = "?st2\<lparr>games := map (\<lambda>g. if game_id g = gid
      then g\<lparr>whiteEloChange := Some c, blackEloChange := Some (- c)\<rparr> else g) (games ?st2)\<rparr>"
  have w1: "updateUser w (whiteUpdates wp result c) st = Inr ?st1"
    using assms(9) by (rule updateUser_writable)
  have w2: "updateUser b (blackUpdates bp result (- c)) ?st1 = Inr ?st2"
    using assms(10) by (rule updateUser_writable)
  have w3: "updateGame gid \<lparr>upd_whiteEloChange = Some c, upd_blackEloChange = Some (- c)\<rparr> ?st2 = Inr ?st3"
    using c by (simp add: updateGame_def)
  have "promiseAll
          [updateUser w (whiteUpdates wp result c), updateUser b (blackUpdates bp result (- c)),
           updateGame gid \<lparr>upd_whiteEloChange = Some c, upd_blackEloChange = Some (- c)\<rparr>] st
        = (None, ?st3)"
    by (simp only: promiseAll.simps w1 w2 w3 sum.case)
  then have run: "updateTournamentRatings gid result game st = (None, ?st3)"
    using assms(1-8) ids by (simp add: updateTournamentRatings_def Let_def)
  have u1: "getUser ?st3 w = Some (applyUpdates (whiteUpdates wp result c) wp)"
    using assms(5,6) ids by (simp add: getUser_def find_map_preserve)
  have u2: "getUser ?st3 b = Some (applyUpdates (blackUpdates bp result (- c)) bp)"
    using assms(5,7) ids by (simp add: getUser_def find_map_preserve)
  have t: "getTournament ?st3 = getTournament st"
    by (simp add: getTournament_def fun_eq_iff)
  have g: "map_option (\<lambda>g. (tournamentId g, whitePlayerId g, blackPlayerId g)) (getGame ?st3 gid)
          = map_option (\<lambda>g. (tournamentId g, whitePlayerId g, blackPlayerId g)) (getGame st gid)"
    by (simp add: getGame_def game_keys_after_update)
  show ?thesis using run u1 u2 t g by blast
qed

lemma handleGameCompletion_step:
  assumes "getGame st gid = Some game" "tournamentId game = Some tid" "tid \<noteq> []"
    and "getTournament st tid = Some tournament"
    and "whitePlayerId game = Some w" "blackPlayerId game = Some b" "w \<noteq> []" "b \<noteq> []" "w \<noteq> b"
    and "getUser st w = Some wp" "getUser st b = Some bp"
    and "calculateEloChange (real_of_int (coerce (eloRating wp))) (real_of_int (coerce (eloRating bp))) result
          = Inr c"
    and "writable (whiteUpdates wp result c)" "writable (blackUpdates bp result (- c))"
  shows "\<exists>game' tournament'.
        getGame (handleGameCompletion shuffle uuid gid result st) gid = Some game'
      \<and> tournamentId game' = Some tid \<and> whitePlayerId game' = Some w \<and> blackPlayerId game' = Some b
      \<and> getTournament (handleGameCompletion shuffle uuid gid result st) tid = Some tournament'
      \<and> getUser (handleGameCompletion shuffle uuid gid result st) w
          = Some (applyUpdates (whiteUpdates wp result c) wp)
      \<and> getUser (handleGameCompletion shuffle uuid gid result st) b
          = Some (applyUpdates (blackUpdates bp result (- c)) bp)"
proof -
  obtain st1 where st1: "updateTournamentRatings gid result game st = (None, st1)"
    and w: "getUser st1 w = Some (applyUpdates (whiteUpdates wp result c) wp)"
    and b: "getUser st1 b = Some (applyUpdates (blackUpdates bp result (- c)) bp)"
    and t: "getTournament st1 = getTournament st"
    and g: "map_option (\<lambda>g. (tournamentId g, whitePlayerId g, blackPlayerId g)) (getGame st1 gid)
          = map_option (\<lambda>g. (tournamentId g, whitePlayerId g, blackPlayerId g)) (getGame st gid)"
    using updateTournamentRatings_step [OF assms(5-14), of gid] by blast
  have h: "handleGameCompletion shuffle uuid gid result st = checkRoundCompletion shuffle uuid tid st1"
    using assms(1-4) st1 by (simp add: handleGameCompletion_def)
  obtain game' where game': "getGame st1 gid = Some game'" "tournamentId game' = Some tid"
      "whitePlayerId game' = Some w" "blackPlayerId game' = Some b"
    using g assms(1,2,5,6) by auto
  obtain tournament' where t': "getTournament (checkRoundCompletion shuffle uuid tid st1) tid = Some tournament'"
    using getTournament_checkRoundCompletion [of st1 tid tournament shuffle uuid tid] t assms(4) by auto
  have gu: "getUser (checkRoundCompletion shuffle uuid tid st1) = getUser st1"
    "getGame (checkRoundCompletion shuffle uuid tid st1) = getGame st1"
    by (simp_all add: fun_eq_iff getUser_def getGame_def)
  show ?thesis
    unfolding h gu using game' t' w b by blast
qed

lemma applied_white [simp]:
  "eloRating (applyUpdates (whiteUpdates u result c) u) = Some (coerce (eloRating u) + c)"
  "gamesPlayed (applyUpdates (whiteUpdates u result c) u) = Some (coerce (gamesPlayed u) + 1)"
  by (simp_all add: applyUpdates_def whiteUpdates_def)

lemma applied_black [simp]:
  "eloRating (applyUpdates (blackUpdates u result c) u) = Some (coerce (eloRating u) + c)"
  "gamesPlayed (applyUpdates (blackUpdates u result c) u) = Some (coerce (gamesPlayed u) + 1)"
  by (simp_all add: applyUpdates_def blackUpdates_def)

lemma tenth_root_bounds: "7 / 9 \<le> (10::real) powr (- (1 / 10)) \<and> (10::real) powr (- (1 / 10)) \<le> 4 / 5"
proof -
  have e: "(10::real) powr (- (1 / 10)) = (1 / 10) powr (1 / 10)"
  proof -
    have "(1 / 10 :: real) = 10 powr (- 1)" by (simp add: powr_minus_divide)
    then have "(1 / 10 :: real) powr (1 / 10) = (10 powr (- 1)) powr (1 / 10)" by simp
    also have "\<dots> = 10 powr (- (1 / 10))" by (simp only: powr_powr) simp
    finally show ?thesis by simp
  qed
  have lo: "((7 / 9 :: real) ^ 10) powr (1 / 10) \<le> (1 / 10) powr (1 / 10)"
    by (rule powr_mono2) (simp_all add: power_divide)
  have hi: "(1 / 10 :: real) powr (1 / 10) \<le> ((4 / 5) ^ 10) powr (1 / 10)"
    by (rule powr_mono2) (simp_all add: power_divide)
  have r1: "((7 / 9 :: real) ^ 10) powr (1 / 10) = 7 / 9"
  proof -
    have "((7 / 9 :: real) powr 10) powr (1 / 10) = 7 / 9" by (simp only: powr_powr) simp
    moreover have "(7 / 9 :: real) powr 10 = (7 / 9) ^ 10" by (rule powr_numeral) simp
    ultimately show ?thesis by simp
  qed
  have r2: "((4 / 5 :: real) ^ 10) powr (1 / 10) = 4 / 5"
  proof -
    have "((4 / 5 :: real) powr 10) powr (1 / 10) = 4 / 5" by (simp only: powr_powr) simp
    moreover have "(4 / 5 :: real) powr 10 = (4 / 5) ^ 10" by (rule powr_numeral) simp
    ultimately show ?thesis by simp
  qed
  show ?thesis using lo hi unfolding e r1 r2 by simp
qed

lemma calculateEloChange_1200_1200: "calculateEloChange 1200 1200 ''white_wins'' = Inr 20"
  by (simp add: calculateEloChange_def EloCalculator_calculateEloChange_def calculateExpectedScore_def
      calculateKFactor_def Math_pow_def Math_round_def elo_constants)

lemma calculateEloChange_1220_1180: "calculateEloChange 1220 1180 ''white_wins'' = Inr 18"
proof -
  define x where "x = (10::real) powr (- (1 / 10))"
  have x: "7 / 9 \<le> x" "x \<le> 4 / 5" using tenth_root_bounds by (simp_all add: x_def)
  have "1 / (1 + x) \<le> 1 / (1 + 7 / 9)" using x by (intro divide_left_mono) simp_all
  moreover have "1 / (1 + 4 / 5) \<le> 1 / (1 + x)" using x by (intro divide_left_mono) simp_all
  ultimately have "Math_round (40 * (1 - 1 / (1 + x))) = 18"
    unfolding Math_round_def by (simp add: floor_eq_iff) 
  then show ?thesis
    by (simp add: calculateEloChange_def EloCalculator_calculateEloChange_def calculateExpectedScore_def
      calculateKFactor_def Math_pow_def elo_constants x_def)
qed

lemmas storage_defs =
  handleGameCompletion_def getGame_def getTournament_def updateTournamentRatings_def getUser_def
  updateUser_def updateGame_def checkRoundCompletion_def getTournamentActiveGames_def
  getActiveGames_def getRemainingPlayers_def completeTournament_def updateTournament_def
  whiteUpdates_def blackUpdates_def applyUpdates_def writable_def int4_def

text \<open>
  A write outside the 32-bit range: with both ratings at 2147483647 the white player's
  update is rejected and the black player's lands; the exception skips the round check.
\<close>

lemma calculateEloChange_top: "calculateEloChange 2147483647 2147483647 ''white_wins'' = Inr 8"
  by (simp add: calculateEloChange_def EloCalculator_calculateEloChange_def calculateExpectedScore_def
      calculateKFactor_def Math_pow_def Math_round_def elo_constants)

lemma handleGameCompletion_rejected_write:
  "map (\<lambda>u. (user_id u, eloRating u, gamesPlayed u))
     (users (handleGameCompletion rev show_nat ''g1'' ''white_wins''
        (replay_storage\<lparr>users :=
           [\<lparr>user_id = ''w'', eloRating = Some 2147483647, gamesPlayed = Some 50, gamesWon = Some 20,
             gamesLost = Some 20, gamesDrawn = Some 10\<rparr>,
            \<lparr>user_id = ''b'', eloRating = Some 2147483647, gamesPlayed = Some 50, gamesWon = Some 20,
             gamesLost = Some 20, gamesDrawn = Some 10\<rparr>]\<rparr>)))
   = [(''w'', Some 2147483647, Some 50), (''b'', Some 2147483639, Some 51)]"
  by (simp add: storage_defs replay_storage_def Let_def calculateEloChange_top)

text \<open>
  Claim C2, as the code has it: \<open>handleGameCompletion\<close> has no check of a completed match
  and is not idempotent. Whenever the game, its tournament and its two distinct players
  exist, the result string is valid and the players' statistics leave room in their 32-bit
  columns, a call adds to the white player's rating the delta computed from the two
  current ratings, subtracts it from the black player's and increments both games-played
  counters, whatever the status of the game or a change recorded before; a second call for
  the same game applies a second delta, computed from the ratings the first call left.
\<close>

theorem handleGameCompletion_applies_every_call:
  assumes "getGame st gid = Some game" "tournamentId game = Some tid" "tid \<noteq> []"
    and "getTournament st tid = Some tournament"
    and "whitePlayerId game = Some w" "blackPlayerId game = Some b" "w \<noteq> []" "b \<noteq> []" "w \<noteq> b"
    and "getUser st w = Some wp" "getUser st b = Some bp"
    and "headroom wp" "headroom bp"
    and "calculateEloChange (real_of_int (coerce (eloRating wp))) (real_of_int (coerce (eloRating bp))) result
          = Inr c"
    and "calculateEloChange (real_of_int (coerce (eloRating wp) + c)) (real_of_int (coerce (eloRating bp) - c))
          result = Inr c'"
  shows "\<exists>wp1 bp1 wp2 bp2.
        getUser (handleGameCompletion shuffle uuid gid result st) w = Some wp1
      \<and> eloRating wp1 = Some (coerce (eloRating wp) + c)
      \<and> gamesPlayed wp1 = Some (coerce (gamesPlayed wp) + 1)
      \<and> getUser (handleGameCompletion shuffle uuid gid result st) b = Some bp1
      \<and> eloRating bp1 = Some (coerce (eloRating bp) - c)
      \<and> gamesPlayed bp1 = Some (coerce (gamesPlayed bp) + 1)
      \<and> getUser (handleGameCompletion shuffle uuid gid result
            (handleGameCompletion shuffle uuid gid result st)) w = Some wp2
      \<and> eloRating wp2 = Some (coerce (eloRating wp) + c + c')
      \<and> gamesPlayed wp2 = Some (coerce (gamesPlayed wp) + 2)
      \<and> getUser (handleGameCompletion shuffle uuid gid result
            (handleGameCompletion shuffle uuid gid result st)) b = Some bp2
      \<and> eloRating bp2 = Some (coerce (eloRating bp) - c - c')
      \<and> gamesPlayed bp2 = Some (coerce (gamesPlayed bp) + 2)"
proof -
  let ?st1 = "handleGameCompletion shuffle uuid gid result st"
  let ?wp1 = "applyUpdates (whiteUpdates wp result c) wp"
  let ?bp1 = "applyUpdates (blackUpdates bp result (- c)) bp"
  let ?wp2 = "applyUpdates (whiteUpdates ?wp1 result c') ?wp1"
  let ?bp2 = "applyUpdates (blackUpdates ?bp1 result (- c')) ?bp1"
  have room: "columns_within 2147483000 wp" "columns_within 2147483000 bp"
    using assms(12,13) by (simp_all add: headroom_def)
  have c: "\<bar>c\<bar> \<le> 40" "\<bar>- c\<bar> \<le> 40"
    using calculateEloChange_bound [OF assms(14)] by simp_all
  have c': "\<bar>c'\<bar> \<le> 40" "\<bar>- c'\<bar> \<le> 40"
    using calculateEloChange_bound [OF assms(15)] by simp_all
  have w1: "writable (whiteUpdates wp result c)" "columns_within (2147483000 + 40) ?wp1"
    using whiteUpdates_room [OF room(1) c(1)] by simp_all
  have b1: "writable (blackUpdates bp result (- c))" "columns_within (2147483000 + 40) ?bp1"
    using blackUpdates_room [OF room(2) c(2)] by simp_all
  have w2: "writable (whiteUpdates ?wp1 result c')"
    using whiteUpdates_room(1) [OF w1(2) c'(1)] by simp
  have b2: "writable (blackUpdates ?bp1 result (- c'))"
    using blackUpdates_room(1) [OF b1(2) c'(2)] by simp
  obtain game1 tournament1 where first:
    "getGame ?st1 gid = Some game1" "tournamentId game1 = Some tid"
    "whitePlayerId game1 = Some w" "blackPlayerId game1 = Some b"
    "getTournament ?st1 tid = Some tournament1"
    "getUser ?st1 w = Some ?wp1" "getUser ?st1 b = Some ?bp1"
    using handleGameCompletion_step [OF assms(1-11) assms(14) w1(1) b1(1), of shuffle uuid] by blast
  have next_change: "calculateEloChange (real_of_int (coerce (eloRating ?wp1)))
      (real_of_int (coerce (eloRating ?bp1))) result = Inr c'"
    using assms(15) by simp
  have second:
    "getUser (handleGameCompletion shuffle uuid gid result ?st1) w = Some ?wp2"
    "getUser (handleGameCompletion shuffle uuid gid result ?st1) b = Some ?bp2"
    using handleGameCompletion_step [OF first(1,2) assms(3) first(5,3,4) assms(7-9) first(6,7)
        next_change w2 b2, of shuffle uuid] by blast+
  show ?thesis
    by (rule exI [of _ ?wp1], rule exI [of _ ?bp1], rule exI [of _ ?wp2], rule exI [of _ ?bp2])
      (simp add: first second)
qed

theorem handleGameCompletion_applies_every_call_witness:
  "\<exists>wp1 bp1 wp2 bp2.
        getUser (handleGameCompletion rev show_nat ''g1'' ''white_wins'' replay_storage) ''w'' = Some wp1
      \<and> eloRating wp1 = Some 1220 \<and> gamesPlayed wp1 = Some 51
      \<and> getUser (handleGameCompletion rev show_nat ''g1'' ''white_wins'' replay_storage) ''b'' = Some bp1
      \<and> eloRating bp1 = Some 1180 \<and> gamesPlayed bp1 = Some 51
      \<and> getUser (handleGameCompletion rev show_nat ''g1'' ''white_wins''
            (handleGameCompletion rev show_nat ''g1'' ''white_wins'' replay_storage)) ''w'' = Some wp2
      \<and> eloRating wp2 = Some 1238 \<and> gamesPlayed wp2 = Some 52
      \<and> getUser (handleGameCompletion rev show_nat ''g1'' ''white_wins''
            (handleGameCompletion rev show_nat ''g1'' ''white_wins'' replay_storage)) ''b'' = Some bp2
      \<and> eloRating bp2 = Some 1162 \<and> gamesPlayed bp2 = Some 52"
  using handleGameCompletion_applies_every_call
    [where st = replay_storage and gid = "''g1''" and tid = "''t1''" and w = "''w''" and b = "''b''"
       and result = "''white_wins''" and c = 20 and c' = 18 and shuffle = rev and uuid = show_nat
       and game = "\<lparr>game_id = ''g1'', whitePlayerId = Some ''w'', blackPlayerId = Some ''b'',
           game_status = ''completed'', isRated = True, tournamentId = Some ''t1'',
           whiteEloChange = Some 0, blackEloChange = Some 0\<rparr>"
       and tournament = "\<lparr>tournament_id = ''t1'', tournament_status = ''active'', winnerId = None, rules = None\<rparr>"
       and wp = "\<lparr>user_id = ''w'', eloRating = Some 1200, gamesPlayed = Some 50, gamesWon = Some 20,
           gamesLost = Some 20, gamesDrawn = Some 10\<rparr>"
       and bp = "\<lparr>user_id = ''b'', eloRating = Some 1200, gamesPlayed = Some 50, gamesWon = Some 20,
           gamesLost = Some 20, gamesDrawn = Some 10\<rparr>"]
  by (simp add: replay_storage_def getGame_def getTournament_def getUser_def headroom_def
      columns_within_def calculateEloChange_1200_1200 calculateEloChange_1220_1180)

text \<open>
  Claim C2 as stated fails: on a completed game between two players rated 1200, the first
  call for a white win leaves the ratings 1220 and 1180, and the replay of the same call
  moves them to 1238 and 1162.
\<close>

theorem handleGameCompletion_replay_applies_twice:
  "map game_status (games replay_storage) = [''completed'']
   \<and> map (\<lambda>u. (user_id u, eloRating u, gamesPlayed u)) (users replay_storage)
       = [(''w'', Some 1200, Some 50), (''b'', Some 1200, Some 50)]
   \<and> map (\<lambda>u. (user_id u, eloRating u, gamesPlayed u))
       (users (handleGameCompletion rev show_nat ''g1'' ''white_wins'' replay_storage))
       = [(''w'', Some 1220, Some 51), (''b'', Some 1180, Some 51)]
   \<and> map (\<lambda>u. (user_id u, eloRating u, gamesPlayed u))
       (users (handleGameCompletion rev show_nat ''g1'' ''white_wins''
          (handleGameCompletion rev show_nat ''g1'' ''white_wins'' replay_storage)))
       = [(''w'', Some 1238, Some 52), (''b'', Some 1162, Some 52)]"
  by (simp add: storage_defs replay_storage_def Let_def
      calculateEloChange_1200_1200 calculateEloChange_1220_1180)

end
